theory Spec2Isabelle
  imports Main "HOL-Library.Sublist"
begin

section \<open>Values and errors of the JavaScript side\<close>

text \<open>
  A response body is \<open>any\<close> in the source: a parsed JSON value, a plain text, or nothing.
  Numbers are taken as integers; an object is the list of its properties.
\<close>

datatype jsval =
    JUndefined
  | JNull
  | JBool bool
  | JNum int
  | JStr string
  | JArr "jsval list"
  | JObj "(string \<times> jsval) list"

text \<open>\<open>v?.k\<close> for the property names the source reads (\<open>name\<close>, \<open>message\<close>): only an
  object carries them, every other value gives \<open>undefined\<close>.\<close>

fun get_prop :: "jsval \<Rightarrow> string \<Rightarrow> jsval" where
  "get_prop (JObj kvs) k = (case map_of kvs k of Some v \<Rightarrow> v | None \<Rightarrow> JUndefined)"
| "get_prop _ k = JUndefined"

text \<open>\<open>typeof v === 'string' ? v : ''\<close>\<close>

fun string_or_empty :: "jsval \<Rightarrow> string" where
  "string_or_empty (JStr s) = s"
| "string_or_empty _ = []"

text \<open>
  Modelled from the spec: \<open>isUltrasaErrorBody\<close> is imported from the package
  \<open>@ultrasa/dev-kit\<close>, which is not part of the sources. The spec describes the first-party
  error envelope as an object carrying at least a string \<open>name\<close> and a string \<open>message\<close>;
  any other shape is not an envelope. \<open>ultrasaErrorBody\<close> is the type guard together with
  the two fields it guarantees.
\<close>

definition ultrasaErrorBody :: "jsval \<Rightarrow> (string \<times> string) option" where
  "ultrasaErrorBody body =
     (case get_prop body ''name'' of
        JStr n \<Rightarrow> (case get_prop body ''message'' of JStr m \<Rightarrow> Some (n, m) | _ \<Rightarrow> None)
      | _ \<Rightarrow> None)"

definition isUltrasaErrorBody :: "jsval \<Rightarrow> bool" where
  "isUltrasaErrorBody body = (ultrasaErrorBody body \<noteq> None)"

text \<open>
  The error classes the source instantiates, and the classes a caller registers through
  \<open>configure\<close> (\<open>Custom\<close>, by name; a caller may also register one of the library's own
  classes, as the tests do with \<open>NetworkError\<close>).
\<close>

datatype error_class =
    TimeoutError
  | NetworkError
  | UnauthenticatedError
  | EndpointNotFoundError
  | IllegalArgumentError
  | Error
  | TypeError
  | Custom string

record axios_response =
  status :: int
  data :: jsval
  resp_headers :: "(string \<times> string) list"

text \<open>An object caught by \<open>send\<close>, by the properties \<open>rethrowError\<close> reads.
  \<open>isAxiosError\<close> is the truthiness of that property; a missing \<open>message\<close>, \<open>code\<close>
  or \<open>response\<close> is \<open>None\<close>.\<close>

record error_object =
  isAxiosError :: bool
  message :: "string option"
  code :: "string option"
  response :: "axios_response option"

text \<open>
  Whatever JavaScript can throw here: \<open>New C m\<close> is \<open>new C(m)\<close>, \<open>Obj e\<close> is an error
  object that came out of the transport, \<open>Undefined\<close> is the value \<open>undefined\<close> (what
  \<open>throw f()\<close> throws when \<open>f\<close> returns nothing).
\<close>

datatype thrown =
    New error_class "string option"
  | Obj error_object
  | Undefined

text \<open>The properties of a caught value. An instance built with \<open>new C(m)\<close> carries the
  message it was built with and none of the axios properties.\<close>

fun js_fields :: "thrown \<Rightarrow> error_object" where
  "js_fields (Obj e) = e"
| "js_fields (New c m) = \<lparr>isAxiosError = False, message = m, code = None, response = None\<rparr>"
| "js_fields Undefined = \<lparr>isAxiosError = False, message = None, code = None, response = None\<rparr>"

section \<open>The client\<close>

text \<open>
  The custom error handler has type \<open>(status, body) => void\<close> and is used as
  \<open>throw this.errorHandler(status, body)\<close>: it either raises itself, or returns a value
  that the \<open>throw\<close> then raises.
\<close>

datatype handler_result = Throws thrown | Returns thrown

fun raised_by :: "handler_result \<Rightarrow> thrown" where
  "raised_by (Throws e) = e"
| "raised_by (Returns v) = v"

type_synonym error_handler = "int \<Rightarrow> jsval \<Rightarrow> handler_result"

record error_constructors =
  serviceErrorConstructor :: "error_class option"
  errorNameToConstructor :: "(string \<rightharpoonup> error_class) option"

type_synonym abort_signal = nat

record axios_request_config =
  params :: "(string \<times> string) list"
  cfg_signal :: "abort_signal option"
  cfg_timeout :: "int option"
  cfg_baseURL :: "string option"
  cfg_headers :: "(string \<times> string) list option"

type_synonym interceptor = "axios_request_config \<Rightarrow> axios_request_config"

text \<open>
  An axios instance, as far as the constructor configures one: the defaults given to
  \<open>axios.create\<close>, the request interceptors registered on it, and the number of retries
  when \<open>axiosRetry\<close> has been installed on it (\<open>None\<close>: not installed). The delay between
  attempts (\<open>exponentialDelay\<close>) is real time and is left out.
\<close>

record axios_instance =
  inst_baseURL :: "string option"
  inst_timeout :: "int option"
  request_interceptors :: "interceptor list"
  retry :: "int option"

datatype interceptors_prop = Single interceptor | Many "interceptor list"

record axios_http_client_props =
  props_instance :: "axios_instance option"
  props_baseUrl :: "string option"
  props_timeout :: "int option"
  interceptors :: "interceptors_prop option"
  maximumRetry :: "int option"

record client =
  httpClient :: axios_instance
  errorHandler :: "error_handler option"
  errorConstructors :: "error_constructors option"

definition AxiosHttpClient :: "axios_http_client_props \<Rightarrow> client" where
  "AxiosHttpClient p =
     (case props_instance p of
        Some inst \<Rightarrow> \<lparr>httpClient = inst, errorHandler = None, errorConstructors = None\<rparr>
      | None \<Rightarrow>
          \<lparr>httpClient =
             \<lparr>inst_baseURL = props_baseUrl p,
              inst_timeout = props_timeout p,
              request_interceptors =
                (case interceptors p of
                   None \<Rightarrow> []
                 | Some (Many fs) \<Rightarrow> fs
                 | Some (Single f) \<Rightarrow> [f]),
              retry =
                (case maximumRetry p of
                   Some n \<Rightarrow> if n > 0 then Some n else None
                 | None \<Rightarrow> None)\<rparr>,
           errorHandler = None,
           errorConstructors = None\<rparr>)"

datatype configuration =
    HttpErrorHandler "error_handler option"
  | ErrorConstructor "(string \<rightharpoonup> error_class) option" "error_class option"
  | OtherConfiguration

fun configure :: "client \<Rightarrow> configuration \<Rightarrow> client" where
  "configure this (HttpErrorHandler h) = this\<lparr>errorHandler := h\<rparr>"
| "configure this (ErrorConstructor m s) =
     this\<lparr>errorConstructors :=
            Some \<lparr>serviceErrorConstructor = s, errorNameToConstructor = m\<rparr>\<rparr>"
| "configure this OtherConfiguration = this"

section \<open>The error classifier\<close>

text \<open>\<open>this.errorConstructors?.errorNameToConstructor\<close>, when set, looked up at the name of
  the error body (\<open>None\<close>: nothing configured, or no entry for the name), and
  \<open>this.errorConstructors?.serviceErrorConstructor\<close>.\<close>

definition constructor_for :: "client \<Rightarrow> string \<Rightarrow> error_class option" where
  "constructor_for this name =
     (case errorConstructors this of
        None \<Rightarrow> None
      | Some ec \<Rightarrow>
          (case errorNameToConstructor ec of
             None \<Rightarrow> None
           | Some table \<Rightarrow> table name))"

definition service_constructor :: "client \<Rightarrow> error_class option" where
  "service_constructor this =
     (case errorConstructors this of
        None \<Rightarrow> None
      | Some ec \<Rightarrow> serviceErrorConstructor ec)"

record http_response =
  response_body :: jsval

text \<open>
  \<open>rethrowError\<close> has return type \<open>never\<close> and is the last statement of \<open>send\<close>. The
  model returns what it raises as \<open>Inl\<close> (\<open>Inr\<close> would be a normal return, which \<open>send\<close>
  would hand to its caller), together with the calls it made to the custom error handler,
  each as the pair of its arguments. The warnings it logs are not modelled.
  Reading \<open>error.isAxiosError\<close> of \<open>undefined\<close> is a \<open>TypeError\<close>.
\<close>

definition rethrowError ::
  "client \<Rightarrow> thrown \<Rightarrow> (thrown + http_response) \<times> (int \<times> jsval) list" where
  "rethrowError this error =
     (if error = Undefined then (Inl (New TypeError None), [])
      else if isAxiosError (js_fields error) then
        (case response (js_fields error) of
           None \<Rightarrow>
             (if (case message (js_fields error) of Some m \<Rightarrow> prefix ''timeout'' m | None \<Rightarrow> False)
              then (Inl (New TimeoutError (message (js_fields error))), [])
              else
                (Inl (New NetworkError
                        (case message (js_fields error) of
                           Some m \<Rightarrow> Some m
                         | None \<Rightarrow> code (js_fields error))), []))
         | Some r \<Rightarrow>
             (case errorHandler this of
                Some h \<Rightarrow> (Inl (raised_by (h (status r) (data r))), [(status r, data r)])
              | None \<Rightarrow>
                  (case ultrasaErrorBody (data r) of
                     Some (name, msg) \<Rightarrow>
                       (case constructor_for this name of
                          Some constructor \<Rightarrow> (Inl (New constructor (Some msg)), [])
                        | None \<Rightarrow>
                            (case service_constructor this of
                               Some service \<Rightarrow>
                                 (Inl (New service (Some (name @ '': '' @ msg))), [])
                             | None \<Rightarrow> (Inl (New Error (Some (name @ '': '' @ msg))), [])))
                   | None \<Rightarrow>
                       (if status r = 403 then
                          (Inl (New UnauthenticatedError
                                  (Some (string_or_empty (get_prop (data r) ''message'')))), [])
                        else if status r = 404 then
                          (Inl (New EndpointNotFoundError
                                  (Some (string_or_empty (get_prop (data r) ''message'')))), [])
                        else (Inl error, [])))))
      else if message (js_fields error) = Some ''canceled'' then
        (Inl (New NetworkError (message (js_fields error))), [])
      else (Inl error, []))"

section \<open>Attempts and retries\<close>

text \<open>
  One attempt of a request either resolves with a response or rejects with a thrown value.
  The transport (axios with its adapter, the network and the server) is a parameter of the
  model: given the instance, the method, the URL, the request body, the request
  configuration and the index of the attempt, it tells how that attempt ends.
\<close>

datatype attempt_outcome = Success axios_response | Failure thrown

type_synonym transport =
  "axios_instance \<Rightarrow> string \<Rightarrow> string \<Rightarrow> jsval \<Rightarrow> axios_request_config \<Rightarrow> nat \<Rightarrow> attempt_outcome"

definition idempotent_methods :: "string set" where
  "idempotent_methods = {''GET'', ''HEAD'', ''OPTIONS'', ''PUT'', ''DELETE''}"

datatype outcome_kind =
    Timeout
  | Cancelled
  | NetworkFailure
  | ApplicationError int
  | Unclassified

text \<open>
  Modelled from the spec: the outcome kinds of the spec's data model, which the retry
  policy consults. A failed attempt is told apart the way \<open>rethrowError\<close> tells failures
  apart: no response and a message starting with \<open>timeout\<close> is a timeout, the message
  \<open>canceled\<close> is a cancellation, any other axios failure without response is a network
  failure, and a response is an application error with its status.
\<close>

definition outcome_kind :: "thrown \<Rightarrow> outcome_kind" where
  "outcome_kind error =
     (if isAxiosError (js_fields error) then
        (case response (js_fields error) of
           Some r \<Rightarrow> ApplicationError (status r)
         | None \<Rightarrow>
             (if (case message (js_fields error) of Some m \<Rightarrow> prefix ''timeout'' m | None \<Rightarrow> False)
              then Timeout
              else if message (js_fields error) = Some ''canceled'' then Cancelled
              else NetworkFailure))
      else if message (js_fields error) = Some ''canceled'' then Cancelled
      else Unclassified)"

text \<open>
  Modelled from the spec: the retry policy is the one of the package \<open>axios-retry\<close>, which
  the constructor installs and which is not part of the sources. The spec (Retry Policy)
  says: never retry when the attempt index has reached the maximum; never retry a
  non-idempotent method; retry an idempotent method on a network-class failure or on a
  response with a status in [500, 600); do not retry a timeout, a cancellation or a 4xx
  response.
\<close>

definition shouldRetry :: "int \<Rightarrow> string \<Rightarrow> nat \<Rightarrow> thrown \<Rightarrow> bool" where
  "shouldRetry maximum m attemptIndex error =
     (int attemptIndex < maximum \<and> m \<in> idempotent_methods \<and>
      (case outcome_kind error of
         NetworkFailure \<Rightarrow> True
       | ApplicationError s \<Rightarrow> 500 \<le> s \<and> s < 600
       | _ \<Rightarrow> False))"

text \<open>Whether the instance re-attempts after attempt \<open>k\<close> failed with \<open>error\<close>: only
  when retries are installed on it and the policy says so.\<close>

definition retries_after :: "int option \<Rightarrow> string \<Rightarrow> nat \<Rightarrow> thrown \<Rightarrow> bool" where
  "retries_after installed m k error =
     (case installed of None \<Rightarrow> False | Some maximum \<Rightarrow> shouldRetry maximum m k error)"

text \<open>
  Modelled from the spec: the attempts of one call of the instance (axios and
  \<open>axios-retry\<close> are not part of the sources). From attempt \<open>k\<close> on: a success is
  returned at once, a failure is re-attempted when the policy says so, and otherwise it is
  the outcome of the call. The result is the outcome of the last attempt and the number
  of attempts made in all.
\<close>

function request_loop ::
  "(nat \<Rightarrow> attempt_outcome) \<Rightarrow> int option \<Rightarrow> string \<Rightarrow> nat \<Rightarrow> attempt_outcome \<times> nat" where
  "request_loop attempt installed m k =
     (case attempt k of
        Success r \<Rightarrow> (Success r, Suc k)
      | Failure error \<Rightarrow>
          (if retries_after installed m k error
           then request_loop attempt installed m (Suc k)
           else (Failure error, Suc k)))"
  by pat_completeness auto
termination
proof (relation "measure (\<lambda>(attempt, installed, m, k).
         case installed of None \<Rightarrow> 0 | Some maximum \<Rightarrow> nat maximum - k)")
  show "wf (measure (\<lambda>(attempt, installed, m, k).
         case installed of None \<Rightarrow> 0 | Some (maximum::int) \<Rightarrow> nat maximum - k))"
    by simp
next
  fix attempt :: "nat \<Rightarrow> attempt_outcome" and installed :: "int option"
    and m :: string and k :: nat and error :: thrown
  assume "retries_after installed m k error"
  then obtain maximum where "installed = Some maximum" and "int k < maximum"
    by (auto simp: retries_after_def shouldRetry_def split: option.splits)
  then show "((attempt, installed, m, Suc k), (attempt, installed, m, k))
      \<in> measure (\<lambda>(attempt, installed, m, k).
           case installed of None \<Rightarrow> 0 | Some maximum \<Rightarrow> nat maximum - k)"
    by simp
qed

declare request_loop.simps [simp del]

definition axios_request ::
  "transport \<Rightarrow> axios_instance \<Rightarrow> string \<Rightarrow> string \<Rightarrow> jsval \<Rightarrow> axios_request_config
     \<Rightarrow> attempt_outcome \<times> nat" where
  "axios_request t inst m u d config = request_loop (t inst m u d config) (retry inst) m 0"

section \<open>The request dispatcher\<close>

record http_request =
  http_method :: string
  url :: string
  query :: "(string \<times> string) list option"
  signal :: "abort_signal option"
  timeout :: "int option"
  baseUrl :: "string option"
  headers :: "(string \<times> string) list option"
  body :: jsval

text \<open>What one call of \<open>send\<close> did: what it returned (\<open>Inr\<close>) or raised (\<open>Inl\<close>), the
  number of attempts the transport made, and the calls to the custom error handler.\<close>

record send_run =
  outcome :: "thrown + http_response"
  attempts :: nat
  handler_calls :: "(int \<times> jsval) list"

text \<open>The body of the \<open>try\<close> for one awaited axios call, with the \<open>catch\<close> around it.\<close>

definition try_request :: "client \<Rightarrow> attempt_outcome \<times> nat \<Rightarrow> send_run" where
  "try_request this res =
     (case fst res of
        Success resp \<Rightarrow>
          \<lparr>outcome = Inr \<lparr>response_body = data resp\<rparr>, attempts = snd res, handler_calls = []\<rparr>
      | Failure err \<Rightarrow>
          \<lparr>outcome = fst (rethrowError this err), attempts = snd res,
           handler_calls = snd (rethrowError this err)\<rparr>)"

text \<open>The request configuration \<open>send\<close> builds: the query is copied into \<open>params\<close>
  (spreading a missing query gives no parameters).\<close>

definition config_of :: "http_request \<Rightarrow> axios_request_config" where
  "config_of request =
     \<lparr>params = (case query request of None \<Rightarrow> [] | Some q \<Rightarrow> q),
      cfg_signal = signal request,
      cfg_timeout = timeout request,
      cfg_baseURL = baseUrl request,
      cfg_headers = headers request\<rparr>"

definition send :: "transport \<Rightarrow> client \<Rightarrow> http_request \<Rightarrow> send_run" where
  "send t this request =
     (let config = config_of request
      in
        if http_method request = ''GET'' then
          try_request this
            (axios_request t (httpClient this) ''GET'' (url request) JUndefined config)
        else if http_method request = ''DELETE'' then
          try_request this
            (axios_request t (httpClient this) ''DELETE'' (url request) JUndefined config)
        else if http_method request = ''POST'' then
          try_request this
            (axios_request t (httpClient this) ''POST'' (url request) (body request) config)
        else if http_method request = ''PUT'' then
          try_request this
            (axios_request t (httpClient this) ''PUT'' (url request) (body request) config)
        else if http_method request = ''PATCH'' then
          try_request this
            (axios_request t (httpClient this) ''PATCH'' (url request) (body request) config)
        else
          try_request this
            (Failure (New IllegalArgumentError
                        (Some (''Invalid method '' @ http_method request @ ''.''))), 0))"

definition supported_methods :: "string set" where
  "supported_methods = {''GET'', ''POST'', ''PUT'', ''PATCH'', ''DELETE''}"

text \<open>The request body \<open>send\<close> hands to axios, and the attempts of the call it makes
  for a supported method.\<close>

definition data_of :: "http_request \<Rightarrow> jsval" where
  "data_of request =
     (if http_method request = ''GET'' \<or> http_method request = ''DELETE'' then JUndefined
      else body request)"

definition attempts_of :: "transport \<Rightarrow> client \<Rightarrow> http_request \<Rightarrow> nat \<Rightarrow> attempt_outcome" where
  "attempts_of t this request =
     t (httpClient this) (http_method request) (url request) (data_of request) (config_of request)"

text \<open>The call as a whole: the outcome of its last attempt and the number of attempts.\<close>

definition call_of :: "transport \<Rightarrow> client \<Rightarrow> http_request \<Rightarrow> attempt_outcome \<times> nat" where
  "call_of t this request =
     request_loop (attempts_of t this request) (retry (httpClient this)) (http_method request) 0"

section \<open>Example inputs\<close>

text \<open>The inputs of the test suite: its clients, its requests, and a server that answers
  the attempts of a call with a list of behaviours, then with a fallback.\<close>

definition test_props :: "int option \<Rightarrow> axios_http_client_props" where
  "test_props n =
     \<lparr>props_instance = None, props_baseUrl = Some ''http://localhost:23324'',
      props_timeout = None, interceptors = None, maximumRetry = n\<rparr>"

definition test_request :: "string \<Rightarrow> http_request" where
  "test_request m =
     \<lparr>http_method = m, url = ''/test'', query = None, signal = None, timeout = None,
      baseUrl = None, headers = None, body = JUndefined\<rparr>"

definition response_error :: "int \<Rightarrow> jsval \<Rightarrow> error_object" where
  "response_error s d =
     \<lparr>isAxiosError = True, message = Some ''Request failed'', code = Some ''ERR_BAD_RESPONSE'',
      response = Some \<lparr>status = s, data = d, resp_headers = []\<rparr>\<rparr>"

definition transport_error :: "string \<Rightarrow> string \<Rightarrow> error_object" where
  "transport_error m c =
     \<lparr>isAxiosError = True, message = Some m, code = Some c, response = None\<rparr>"

definition server2 :: "attempt_outcome list \<Rightarrow> attempt_outcome \<Rightarrow> transport" where
  "server2 behaviors fallback =
     (\<lambda>inst m u d config k. if k < length behaviors then behaviors ! k else fallback)"

definition system_error_body :: jsval where
  "system_error_body =
     JObj [(''name'', JStr ''SystemError''), (''message'', JStr ''mockErrorMessage'')]"

definition plain_client :: client where
  "plain_client = AxiosHttpClient (test_props None)"

definition mapped_client :: client where
  "mapped_client =
     configure plain_client
       (ErrorConstructor (Some [''SystemError'' \<mapsto> NetworkError])
          (Some (Custom ''MockServiceError'')))"

definition fallback_client :: client where
  "fallback_client =
     configure plain_client
       (ErrorConstructor (Some [''X'' \<mapsto> NetworkError]) (Some (Custom ''MockServiceError'')))"

definition third_party_handler :: error_handler where
  "third_party_handler s b =
     Throws (New (Custom ''ThirdPartyError'') (Some ''mockErrorMessage''))"

definition handler_client :: client where
  "handler_client = configure plain_client (HttpErrorHandler (Some third_party_handler))"

definition canceled_error :: thrown where
  "canceled_error =
     Obj \<lparr>isAxiosError = True, message = Some ''canceled'', code = Some ''ERR_CANCELED'',
          response = None\<rparr>"

definition plain_instance :: axios_instance where
  "plain_instance =
     \<lparr>inst_baseURL = Some ''http://localhost:23324'', inst_timeout = None,
      request_interceptors = [], retry = None\<rparr>"

definition instance_props :: "int option \<Rightarrow> axios_http_client_props" where
  "instance_props n =
     \<lparr>props_instance = Some plain_instance, props_baseUrl = None, props_timeout = None,
      interceptors = None, maximumRetry = n\<rparr>"

definition returning_handler :: error_handler where
  "returning_handler s b = Returns Undefined"

definition returning_client :: client where
  "returning_client = configure plain_client (HttpErrorHandler (Some returning_handler))"

section \<open>Lemmas\<close>

lemma send_supported:
  "http_method request \<in> supported_methods \<Longrightarrow>
     send t this request = try_request this (call_of t this request)"
  by (auto simp: send_def supported_methods_def data_of_def call_of_def attempts_of_def
      axios_request_def Let_def)

lemma send_unsupported:
  "http_method request \<notin> supported_methods \<Longrightarrow>
     send t this request =
       \<lparr>outcome = Inl (New IllegalArgumentError (Some (''Invalid method '' @ http_method request @ ''.''))),
        attempts = 0, handler_calls = []\<rparr>"
  by (simp add: send_def supported_methods_def try_request_def rethrowError_def Let_def)

lemma send_failure:
  assumes "http_method request \<in> supported_methods"
    and "fst (call_of t this request) = Failure err"
  shows "outcome (send t this request) = fst (rethrowError this err)"
    and "handler_calls (send t this request) = snd (rethrowError this err)"
    and "attempts (send t this request) = snd (call_of t this request)"
  using assms by (simp_all add: send_supported try_request_def)

lemma request_loop_success:
  "attempt k = Success r \<Longrightarrow> request_loop attempt installed m k = (Success r, Suc k)"
  by (simp add: request_loop.simps)

lemma request_loop_stop:
  "attempt k = Failure err \<Longrightarrow> \<not> retries_after installed m k err \<Longrightarrow>
     request_loop attempt installed m k = (Failure err, Suc k)"
  by (simp add: request_loop.simps)

lemma request_loop_retry:
  "attempt k = Failure err \<Longrightarrow> retries_after installed m k err \<Longrightarrow>
     request_loop attempt installed m k = request_loop attempt installed m (Suc k)"
  by (subst request_loop.simps) simp

lemma request_loop_skip:
  assumes "k0 \<le> k"
    and "\<forall>j. k0 \<le> j \<and> j < k \<longrightarrow> (\<exists>err. attempt j = Failure err \<and> retries_after installed m j err)"
  shows "request_loop attempt installed m k0 = request_loop attempt installed m k"
  using assms
proof (induction k rule: dec_induct)
  case base
  show ?case by simp
next
  case (step n)
  from step.prems step.hyps obtain err where
    "attempt n = Failure err" "retries_after installed m n err"
    by auto
  then have "request_loop attempt installed m n = request_loop attempt installed m (Suc n)"
    by (rule request_loop_retry)
  moreover have "request_loop attempt installed m k0 = request_loop attempt installed m n"
    using step by auto
  ultimately show ?case by simp
qed

lemma httpClient_configure: "httpClient (configure c x) = httpClient c"
  by (cases x) simp_all

lemma httpClient_foldl_configure: "httpClient (foldl configure c xs) = httpClient c"
  by (induction xs arbitrary: c) (simp_all add: httpClient_configure)

lemma not_envelope: "\<not> isUltrasaErrorBody d \<Longrightarrow> ultrasaErrorBody d = None"
  unfolding isUltrasaErrorBody_def by blast

lemma cancellation_not_retried:
  assumes "message (js_fields err) = Some ''canceled''"
    and "isAxiosError (js_fields err) \<longrightarrow> response (js_fields err) = None"
  shows "\<not> retries_after installed m k err"
  using assms
  by (auto simp: retries_after_def shouldRetry_def outcome_kind_def split: option.splits)

lemma cancellation_raises:
  assumes "message (js_fields err) = Some ''canceled''"
    and "isAxiosError (js_fields err) \<longrightarrow> response (js_fields err) = None"
  shows "fst (rethrowError this err) = Inl (New NetworkError (Some ''canceled''))"
  using assms by (cases err) (auto simp: rethrowError_def split: option.splits)

section \<open>The claims\<close>

text \<open>C1. A response was received (an axios error carrying a response), its body is a
  first-party envelope with name \<open>name\<close> and message \<open>msg\<close>, and no custom error handler
  is configured. Whatever the status, the classifier raises: the constructor the configured
  mapping holds for \<open>name\<close>, built with \<open>msg\<close>; else the configured fallback constructor,
  built with \<open>name: msg\<close>; else a plain \<open>Error\<close> built with \<open>name: msg\<close>.\<close>

theorem C1_envelope_chain:
  assumes "isAxiosError (js_fields error)"
    and "response (js_fields error) = Some r"
    and "ultrasaErrorBody (data r) = Some (name, msg)"
    and "errorHandler this = None"
  shows "fst (rethrowError this error) =
     Inl (case constructor_for this name of
            Some constructor \<Rightarrow> New constructor (Some msg)
          | None \<Rightarrow>
              (case service_constructor this of
                 Some service \<Rightarrow> New service (Some (name @ '': '' @ msg))
               | None \<Rightarrow> New Error (Some (name @ '': '' @ msg))))"
  using assms by (auto simp: rethrowError_def split: option.splits)

text \<open>C1 at the three configurations of the test suite: nothing configured, a mapping with an entry for the name, and a mapping without one beside a fallback constructor.\<close>

theorem C1_witness:
  "fst (rethrowError plain_client (Obj (response_error 404 system_error_body))) =
     Inl (New Error (Some ''SystemError: mockErrorMessage''))
   \<and> fst (rethrowError mapped_client (Obj (response_error 404 system_error_body))) =
     Inl (New NetworkError (Some ''mockErrorMessage''))
   \<and> fst (rethrowError fallback_client (Obj (response_error 404 system_error_body))) =
     Inl (New (Custom ''MockServiceError'') (Some ''SystemError: mockErrorMessage''))"
proof -
  let ?r = "\<lparr>status = 404, data = system_error_body, resp_headers = []\<rparr>"
  have e: "isAxiosError (js_fields (Obj (response_error 404 system_error_body)))"
    "response (js_fields (Obj (response_error 404 system_error_body))) = Some ?r"
    by (simp_all add: response_error_def)
  have b: "ultrasaErrorBody (data ?r) = Some (''SystemError'', ''mockErrorMessage'')"
    by (simp add: ultrasaErrorBody_def system_error_body_def)
  have h: "errorHandler plain_client = None" "errorHandler mapped_client = None"
    "errorHandler fallback_client = None"
    by (simp_all add: plain_client_def mapped_client_def fallback_client_def
        AxiosHttpClient_def test_props_def)
  show ?thesis
    using C1_envelope_chain [OF e b h(1)] C1_envelope_chain [OF e b h(2)]
      C1_envelope_chain [OF e b h(3)]
    by (simp add: constructor_for_def service_constructor_def plain_client_def
        mapped_client_def fallback_client_def AxiosHttpClient_def test_props_def)
qed

text \<open>C2. When the call made by \<open>send\<close> ends with a transport failure that carries no
  response and is a timeout (its message starts with \<open>timeout\<close>, which is how the source
  recognises one), \<open>send\<close> raises \<open>TimeoutError\<close> with exactly that message.\<close>

theorem C2_timeout:
  assumes "http_method request \<in> supported_methods"
    and "fst (call_of t this request) = Failure (Obj e)"
    and "isAxiosError e" and "response e = None"
    and "message e = Some m" and "prefix ''timeout'' m"
  shows "outcome (send t this request) = Inl (New TimeoutError (Some m))"
proof -
  have "fst (rethrowError this (Obj e)) = Inl (New TimeoutError (Some m))"
    using assms(3-6) by (simp add: rethrowError_def)
  with send_failure(1) [OF assms(1,2)] show ?thesis by simp
qed

text \<open>A concrete instance of C2.\<close>

theorem C2_witness:
  "outcome (send (server2 [] (Failure (Obj (transport_error ''timeout of 500ms exceeded'' ''ECONNABORTED''))))
      plain_client (test_request ''GET'')) =
     Inl (New TimeoutError (Some ''timeout of 500ms exceeded''))"
proof -
  let ?e = "transport_error ''timeout of 500ms exceeded'' ''ECONNABORTED''"
  let ?t = "server2 [] (Failure (Obj ?e))"
  have m: "http_method (test_request ''GET'') \<in> supported_methods"
    by (simp add: test_request_def supported_methods_def)
  have c: "fst (call_of ?t plain_client (test_request ''GET'')) = Failure (Obj ?e)"
    by (simp add: call_of_def attempts_of_def server2_def request_loop.simps retries_after_def
        plain_client_def AxiosHttpClient_def test_props_def)
  have e: "isAxiosError ?e" "response ?e = None" "message ?e = Some ''timeout of 500ms exceeded''"
    "prefix ''timeout'' ''timeout of 500ms exceeded''"
    by (simp_all add: transport_error_def)
  show ?thesis
    using C2_timeout [OF m c e] .
qed

text \<open>C3. For an application error (a response was received) with a custom error handler
  configured, the handler is called once, with the status and the raw body, and what it
  raises (or returns) is what is raised, whatever the body and the status. For a failure
  without response the handler is not called, and what is raised is what the client
  without any handler raises.\<close>

theorem C3_handler:
  "(isAxiosError (js_fields error) \<and> response (js_fields error) = Some r \<and> errorHandler this = Some h \<longrightarrow>
      rethrowError this error = (Inl (raised_by (h (status r) (data r))), [(status r, data r)]))
   \<and> (response (js_fields error) = None \<longrightarrow>
        snd (rethrowError this error) = [] \<and>
        rethrowError this error = rethrowError (this\<lparr>errorHandler := None\<rparr>) error)"
  by (auto simp: rethrowError_def constructor_for_def service_constructor_def)

text \<open>A concrete instance of C3.\<close>

theorem C3_witness:
  "rethrowError handler_client (Obj (response_error 403 system_error_body)) =
     (Inl (New (Custom ''ThirdPartyError'') (Some ''mockErrorMessage'')), [(403, system_error_body)])
   \<and> rethrowError handler_client (Obj (transport_error ''timeout of 500ms exceeded'' ''ECONNABORTED'')) =
     (Inl (New TimeoutError (Some ''timeout of 500ms exceeded'')), [])"
proof -
  let ?r = "\<lparr>status = 403, data = system_error_body, resp_headers = []\<rparr>"
  let ?e = "Obj (response_error 403 system_error_body)"
  let ?f = "Obj (transport_error ''timeout of 500ms exceeded'' ''ECONNABORTED'')"
  have a: "isAxiosError (js_fields ?e) \<and> response (js_fields ?e) = Some ?r \<and>
      errorHandler handler_client = Some third_party_handler"
    by (simp add: response_error_def handler_client_def plain_client_def)
  have b: "response (js_fields ?f) = None"
    by (simp add: transport_error_def)
  have c: "rethrowError (handler_client\<lparr>errorHandler := None\<rparr>) ?f =
      (Inl (New TimeoutError (Some ''timeout of 500ms exceeded'')), [])"
    by (simp add: rethrowError_def transport_error_def)
  from C3_handler [of ?e ?r handler_client third_party_handler] a
  have "rethrowError handler_client ?e =
      (Inl (raised_by (third_party_handler (status ?r) (data ?r))), [(status ?r, data ?r)])"
    by blast
  moreover from C3_handler [of ?f ?r handler_client third_party_handler] b c
  have "rethrowError handler_client ?f =
      (Inl (New TimeoutError (Some ''timeout of 500ms exceeded'')), [])"
    by simp
  ultimately show ?thesis
    by (simp add: third_party_handler_def)
qed

text \<open>C4. When the attempts before attempt \<open>k\<close> failed and were retried, and attempt \<open>k\<close>
  is cancelled (the failure carries the message \<open>canceled\<close> and no response), \<open>send\<close>
  raises \<open>NetworkError\<close> with the message \<open>canceled\<close> and attempt \<open>k\<close> is the last one:
  exactly \<open>k + 1\<close> attempts are made, whatever number of retries remains.\<close>

theorem C4_cancellation:
  assumes "http_method request \<in> supported_methods"
    and "\<forall>j<k. \<exists>e. attempts_of t this request j = Failure e \<and>
           retries_after (retry (httpClient this)) (http_method request) j e"
    and "attempts_of t this request k = Failure err"
    and "message (js_fields err) = Some ''canceled''"
    and "isAxiosError (js_fields err) \<longrightarrow> response (js_fields err) = None"
  shows "outcome (send t this request) = Inl (New NetworkError (Some ''canceled'')) \<and>
         attempts (send t this request) = Suc k"
proof -
  let ?loop = "request_loop (attempts_of t this request) (retry (httpClient this)) (http_method request)"
  have "?loop 0 = ?loop k"
    using assms(2) by (intro request_loop_skip) auto
  moreover have "?loop k = (Failure err, Suc k)"
    using assms(3) cancellation_not_retried [OF assms(4,5)] by (rule request_loop_stop)
  ultimately have call: "call_of t this request = (Failure err, Suc k)"
    by (simp add: call_of_def)
  then have "fst (call_of t this request) = Failure err"
    by simp
  from send_failure(1,3) [OF assms(1) this] call cancellation_raises [OF assms(4,5)]
  show ?thesis by simp
qed

text \<open>C4 with two retries configured: the first attempt of a GET is answered with 500 and retried, the second is cancelled, and no third attempt is made.\<close>

theorem C4_witness:
  "outcome (send (server2 [Failure (Obj (response_error 500 JNull)), Failure canceled_error]
               (Success \<lparr>status = 200, data = JNull, resp_headers = []\<rparr>))
      (AxiosHttpClient (test_props (Some 2))) (test_request ''GET'')) =
     Inl (New NetworkError (Some ''canceled''))
   \<and> attempts (send (server2 [Failure (Obj (response_error 500 JNull)), Failure canceled_error]
               (Success \<lparr>status = 200, data = JNull, resp_headers = []\<rparr>))
      (AxiosHttpClient (test_props (Some 2))) (test_request ''GET'')) = 2"
proof -
  let ?t = "server2 [Failure (Obj (response_error 500 JNull)), Failure canceled_error]
      (Success \<lparr>status = 200, data = JNull, resp_headers = []\<rparr>)"
  let ?c = "AxiosHttpClient (test_props (Some 2))"
  let ?q = "test_request ''GET''"
  have m: "http_method ?q \<in> supported_methods"
    by (simp add: test_request_def supported_methods_def)
  have r: "retries_after (retry (httpClient ?c)) (http_method ?q) 0 (Obj (response_error 500 JNull))"
    by (simp add: retries_after_def shouldRetry_def outcome_kind_def idempotent_methods_def
        response_error_def AxiosHttpClient_def test_props_def test_request_def)
  have a0: "attempts_of ?t ?c ?q 0 = Failure (Obj (response_error 500 JNull))"
    by (simp add: attempts_of_def server2_def)
  have a: "\<forall>j<1. \<exists>e. attempts_of ?t ?c ?q j = Failure e \<and>
      retries_after (retry (httpClient ?c)) (http_method ?q) j e"
    using a0 r by simp
  have b: "attempts_of ?t ?c ?q 1 = Failure canceled_error"
    by (simp add: attempts_of_def server2_def)
  have c: "message (js_fields canceled_error) = Some ''canceled''"
    "isAxiosError (js_fields canceled_error) \<longrightarrow> response (js_fields canceled_error) = None"
    by (simp_all add: canceled_error_def)
  show ?thesis
    using C4_cancellation [OF m a b c] by simp
qed

text \<open>C5. When the call made by \<open>send\<close> ends with a response whose body is not a
  first-party envelope, and no custom handler is configured: at status 403 \<open>send\<close> raises
  \<open>UnauthenticatedError\<close>, at status 404 it raises \<open>EndpointNotFoundError\<close>; the message
  is the \<open>message\<close> field of the body when that is a string, and the empty string
  otherwise.\<close>

theorem C5_403_404:
  assumes "http_method request \<in> supported_methods"
    and "fst (call_of t this request) = Failure (Obj e)"
    and "isAxiosError e" and "response e = Some r"
    and "\<not> isUltrasaErrorBody (data r)"
    and "errorHandler this = None"
  shows "(status r = 403 \<longrightarrow>
            outcome (send t this request) =
              Inl (New UnauthenticatedError
                    (Some (case get_prop (data r) ''message'' of JStr s \<Rightarrow> s | _ \<Rightarrow> []))))
       \<and> (status r = 404 \<longrightarrow>
            outcome (send t this request) =
              Inl (New EndpointNotFoundError
                    (Some (case get_prop (data r) ''message'' of JStr s \<Rightarrow> s | _ \<Rightarrow> []))))"
proof -
  have s: "string_or_empty v = (case v of JStr s \<Rightarrow> s | _ \<Rightarrow> [])" for v
    by (cases v) simp_all
  have none: "ultrasaErrorBody (data r) = None"
    using assms(5) by (rule not_envelope)
  have "status r = 403 \<longrightarrow> fst (rethrowError this (Obj e)) =
          Inl (New UnauthenticatedError
                (Some (case get_prop (data r) ''message'' of JStr s \<Rightarrow> s | _ \<Rightarrow> [])))"
    using assms(3,4,6) none by (simp add: rethrowError_def s)
  moreover have "status r = 404 \<longrightarrow> fst (rethrowError this (Obj e)) =
          Inl (New EndpointNotFoundError
                (Some (case get_prop (data r) ''message'' of JStr s \<Rightarrow> s | _ \<Rightarrow> [])))"
    using assms(3,4,6) none by (simp add: rethrowError_def s)
  ultimately show ?thesis
    using send_failure(1) [OF assms(1,2)] by simp
qed

text \<open>A concrete instance of C5.\<close>

theorem C5_witness:
  "outcome (send (server2 [] (Failure (Obj (response_error 403
              (JObj [(''message'', JStr ''Missing Authentication Token'')])))))
      plain_client (test_request ''GET'')) =
     Inl (New UnauthenticatedError (Some ''Missing Authentication Token''))
   \<and> outcome (send (server2 [] (Failure (Obj (response_error 404 (JStr ''Cannot GET /test'')))))
      plain_client (test_request ''GET'')) =
     Inl (New EndpointNotFoundError (Some []))"
proof -
  let ?d = "JObj [(''message'', JStr ''Missing Authentication Token'')]"
  let ?e = "response_error 403 ?d"
  let ?f = "response_error 404 (JStr ''Cannot GET /test'')"
  have m: "http_method (test_request ''GET'') \<in> supported_methods"
    by (simp add: test_request_def supported_methods_def)
  have c: "fst (call_of (server2 [] (Failure (Obj x))) plain_client (test_request ''GET'')) =
      Failure (Obj x)" for x
    by (simp add: call_of_def attempts_of_def server2_def request_loop.simps retries_after_def
        plain_client_def AxiosHttpClient_def test_props_def)
  have e: "isAxiosError ?e" "response ?e = Some \<lparr>status = 403, data = ?d, resp_headers = []\<rparr>"
    "isAxiosError ?f"
    "response ?f = Some \<lparr>status = 404, data = JStr ''Cannot GET /test'', resp_headers = []\<rparr>"
    by (simp_all add: response_error_def)
  have n: "\<not> isUltrasaErrorBody (data \<lparr>status = 403, data = ?d, resp_headers = []\<rparr>)"
    "\<not> isUltrasaErrorBody
         (data \<lparr>status = 404, data = JStr ''Cannot GET /test'', resp_headers = []\<rparr>)"
    by (simp_all add: isUltrasaErrorBody_def ultrasaErrorBody_def)
  have h: "errorHandler plain_client = None"
    by (simp add: plain_client_def AxiosHttpClient_def test_props_def)
  show ?thesis
    using C5_403_404 [OF m c e(1,2) n(1) h] C5_403_404 [OF m c e(3,4) n(2) h]
    by simp
qed

text \<open>C6. When the call made by \<open>send\<close> ends with a response whose body is not a
  first-party envelope, no custom handler is configured and the status is neither 403 nor
  404, \<open>send\<close> raises the original error object unchanged, status and raw body included.\<close>

theorem C6_passthrough:
  assumes "http_method request \<in> supported_methods"
    and "fst (call_of t this request) = Failure (Obj e)"
    and "isAxiosError e" and "response e = Some r"
    and "\<not> isUltrasaErrorBody (data r)"
    and "errorHandler this = None"
    and "status r \<noteq> 403" and "status r \<noteq> 404"
  shows "outcome (send t this request) = Inl (Obj e)"
proof -
  have "ultrasaErrorBody (data r) = None"
    using assms(5) by (rule not_envelope)
  then have "fst (rethrowError this (Obj e)) = Inl (Obj e)"
    using assms(3,4,6-8) by (simp add: rethrowError_def)
  with send_failure(1) [OF assms(1,2)] show ?thesis by simp
qed

text \<open>A concrete instance of C6.\<close>

theorem C6_witness:
  "outcome (send (server2 [] (Failure (Obj (response_error 401 (JStr ''An Error Message'')))))
      plain_client (test_request ''GET'')) =
     Inl (Obj (response_error 401 (JStr ''An Error Message'')))"
proof -
  let ?r = "\<lparr>status = 401, data = JStr ''An Error Message'', resp_headers = []\<rparr>"
  let ?e = "response_error 401 (JStr ''An Error Message'')"
  have m: "http_method (test_request ''GET'') \<in> supported_methods"
    by (simp add: test_request_def supported_methods_def)
  have c: "fst (call_of (server2 [] (Failure (Obj ?e))) plain_client (test_request ''GET'')) =
      Failure (Obj ?e)"
    by (simp add: call_of_def attempts_of_def server2_def request_loop.simps retries_after_def
        plain_client_def AxiosHttpClient_def test_props_def)
  have e: "isAxiosError ?e" "response ?e = Some ?r"
    by (simp_all add: response_error_def)
  have n: "\<not> isUltrasaErrorBody (data ?r)"
    by (simp add: isUltrasaErrorBody_def ultrasaErrorBody_def)
  have h: "errorHandler plain_client = None"
    by (simp add: plain_client_def AxiosHttpClient_def test_props_def)
  have s: "status ?r \<noteq> 403" "status ?r \<noteq> 404"
    by simp_all
  show ?thesis
    using C6_passthrough [OF m c e n h s] .
qed

text \<open>C7. Whatever was caught and however the client is configured, the classifier
  raises: it never returns normally. This includes a custom handler that returns without
  raising: the value it returned is raised.\<close>

theorem C7_raises: "\<exists>e. fst (rethrowError this error) = Inl e"
  by (auto simp: rethrowError_def split: option.splits prod.splits)

text \<open>C7 for a handler that returns without raising: the classifier raises the value \<open>undefined\<close>.\<close>

theorem C7_witness:
  "(\<exists>e. fst (rethrowError returning_client
           (Obj (response_error 401 (JStr ''An Error Message'')))) = Inl e)
   \<and> fst (rethrowError returning_client
           (Obj (response_error 401 (JStr ''An Error Message'')))) = Inl Undefined"
  using C7_raises [of returning_client "Obj (response_error 401 (JStr ''An Error Message''))"]
  by (simp add: rethrowError_def response_error_def returning_client_def
      returning_handler_def)

text \<open>C8 (amended). On a client constructed without an axios instance of its own and
  with \<open>maximumRetry = N\<close>, for each of the idempotent methods \<open>send\<close> supports (GET, PUT,
  DELETE) and a transport that answers every attempt with a 500 response, \<open>send\<close> makes
  exactly \<open>N + 1\<close> attempts and raises what the classifier raises for the response of the
  last attempt (attempt \<open>N\<close>, counted from 0).\<close>

theorem C8_attempts:
  assumes "props_instance p = None" and "maximumRetry p = Some (int N)"
    and "this = foldl configure (AxiosHttpClient p) cfgs"
    and "http_method request \<in> {''GET'', ''PUT'', ''DELETE''}"
    and "\<forall>k. \<exists>e r. attempts_of t this request k = Failure (Obj e) \<and>
           isAxiosError e \<and> response e = Some r \<and> status r = 500"
  shows "attempts (send t this request) = N + 1 \<and>
         (\<exists>e. attempts_of t this request N = Failure (Obj e) \<and>
              outcome (send t this request) = fst (rethrowError this (Obj e)))"
proof -
  let ?m = "http_method request"
  let ?installed = "retry (httpClient this)"
  let ?loop = "request_loop (attempts_of t this request) ?installed ?m"
  have installed: "?installed = (if N > 0 then Some (int N) else None)"
    using assms(1-3) by (simp add: httpClient_foldl_configure AxiosHttpClient_def)
  have supported: "?m \<in> supported_methods" and idempotent: "?m \<in> idempotent_methods"
    using assms(4) by (auto simp: supported_methods_def idempotent_methods_def)
  have retried: "\<exists>err. attempts_of t this request j = Failure err \<and> retries_after ?installed ?m j err"
    if "j < N" for j
  proof -
    from assms(5) obtain e r where e: "attempts_of t this request j = Failure (Obj e)"
      "isAxiosError e" "response e = Some r" "status r = 500"
      by blast
    have "retries_after ?installed ?m j (Obj e)"
      using that e(2-4) idempotent installed
      by (simp add: retries_after_def shouldRetry_def outcome_kind_def)
    with e(1) show ?thesis by blast
  qed
  from assms(5) obtain e r where e: "attempts_of t this request N = Failure (Obj e)"
    "isAxiosError e" "response e = Some r" "status r = 500"
    by blast
  have "\<not> retries_after ?installed ?m N (Obj e)"
    using installed by (simp add: retries_after_def shouldRetry_def)
  with e(1) have "?loop N = (Failure (Obj e), Suc N)"
    by (rule request_loop_stop)
  moreover have "?loop 0 = ?loop N"
    using retried by (intro request_loop_skip) auto
  ultimately have call: "call_of t this request = (Failure (Obj e), Suc N)"
    by (simp add: call_of_def)
  then have "fst (call_of t this request) = Failure (Obj e)"
    by simp
  from send_failure(1,3) [OF supported this] call e(1) show ?thesis
    by auto
qed

text \<open>C8 at the input of the test suite: two retries, a GET, three attempts.\<close>

theorem C8_witness:
  "attempts (send (server2 [] (Failure (Obj (response_error 500 JNull))))
      (AxiosHttpClient (test_props (Some 2))) (test_request ''GET'')) = 3
   \<and> outcome (send (server2 [] (Failure (Obj (response_error 500 JNull))))
      (AxiosHttpClient (test_props (Some 2))) (test_request ''GET'')) =
     Inl (Obj (response_error 500 JNull))"
proof -
  let ?t = "server2 [] (Failure (Obj (response_error 500 JNull)))"
  let ?p = "test_props (Some 2)"
  let ?c = "AxiosHttpClient ?p"
  let ?q = "test_request ''GET''"
  have p: "props_instance ?p = None" "maximumRetry ?p = Some (int 2)"
    by (simp_all add: test_props_def)
  have c: "?c = foldl configure (AxiosHttpClient ?p) []"
    by simp
  have m: "http_method ?q \<in> {''GET'', ''PUT'', ''DELETE''}"
    by (simp add: test_request_def)
  have a: "\<forall>k. \<exists>e r. attempts_of ?t ?c ?q k = Failure (Obj e) \<and>
      isAxiosError e \<and> response e = Some r \<and> status r = 500"
    by (simp add: attempts_of_def server2_def response_error_def)
  have r: "fst (rethrowError ?c (Obj (response_error 500 JNull))) =
      Inl (Obj (response_error 500 JNull))"
    by (simp add: rethrowError_def response_error_def AxiosHttpClient_def test_props_def
        ultrasaErrorBody_def)
  have t: "attempts_of ?t ?c ?q 2 = Failure (Obj (response_error 500 JNull))"
    by (simp add: attempts_of_def server2_def)
  show ?thesis
    using C8_attempts [OF p c m a] r t by simp
qed

text \<open>The claim as stated fails at two inputs, both with \<open>maximumRetry = 2\<close> and a
  transport that always answers 500: the idempotent method HEAD is not a method of \<open>send\<close>,
  which raises \<open>IllegalArgumentError\<close> without any attempt; and on a client constructed with
  an axios instance of its own the constructor installs no retries, so that a GET makes one
  attempt.\<close>

theorem C8_counterexample:
  "''HEAD'' \<in> idempotent_methods
   \<and> attempts (send (server2 [] (Failure (Obj (response_error 500 JNull))))
        (AxiosHttpClient (test_props (Some 2))) (test_request ''HEAD'')) \<noteq> 2 + 1
   \<and> outcome (send (server2 [] (Failure (Obj (response_error 500 JNull))))
        (AxiosHttpClient (test_props (Some 2))) (test_request ''HEAD'')) =
       Inl (New IllegalArgumentError (Some ''Invalid method HEAD.''))
   \<and> ''GET'' \<in> idempotent_methods
   \<and> attempts (send (server2 [] (Failure (Obj (response_error 500 JNull))))
        (AxiosHttpClient (instance_props (Some 2))) (test_request ''GET'')) \<noteq> 2 + 1"
  by (simp add: idempotent_methods_def send_def try_request_def rethrowError_def
      test_request_def config_of_def axios_request_def request_loop.simps retries_after_def
      AxiosHttpClient_def instance_props_def plain_instance_def server2_def)

text \<open>C9. For a request whose method is none of GET, POST, PUT, PATCH and DELETE, \<open>send\<close>
  raises \<open>IllegalArgumentError\<close> (with the message \<open>Invalid method m.\<close>), the transport
  makes no attempt, and the custom handler is not called.\<close>

theorem C9_unsupported:
  assumes "http_method request \<notin> supported_methods"
  shows "send t this request =
       \<lparr>outcome = Inl (New IllegalArgumentError (Some (''Invalid method '' @ http_method request @ ''.''))),
        attempts = 0, handler_calls = []\<rparr>"
  using assms by (rule send_unsupported)

text \<open>A concrete instance of C9.\<close>

theorem C9_witness:
  "send (server2 [] (Success \<lparr>status = 200, data = JNull, resp_headers = []\<rparr>))
      (AxiosHttpClient (test_props (Some 2))) (test_request ''HEAD'') =
     \<lparr>outcome = Inl (New IllegalArgumentError (Some ''Invalid method HEAD.'')),
      attempts = 0, handler_calls = []\<rparr>"
proof -
  have "http_method (test_request ''HEAD'') \<notin> supported_methods"
    by (simp add: test_request_def supported_methods_def)
  from C9_unsupported [OF this] show ?thesis
    by (simp add: test_request_def)
qed

text \<open>C10 (amended). A client constructed with an axios instance uses that instance as
  it is: \<open>baseUrl\<close>, \<open>timeout\<close>, \<open>interceptors\<close> and \<open>maximumRetry\<close> play no part, and no
  retries are installed on it, whatever \<open>maximumRetry\<close> is. A client constructed without an
  instance and with \<open>maximumRetry\<close> absent or 0 has no retries installed. In both cases,
  when the instance has no retries, every \<open>send\<close> whose method is one of GET, POST, PUT,
  PATCH and DELETE makes exactly one attempt, the first one of the transport, and returns
  or raises what that attempt's outcome gives.\<close>

theorem C10_no_retry_installed:
  assumes "this = foldl configure (AxiosHttpClient p) cfgs"
    and "http_method request \<in> supported_methods"
  shows "(props_instance p = Some inst \<longrightarrow>
            AxiosHttpClient p =
              \<lparr>httpClient = inst, errorHandler = None, errorConstructors = None\<rparr> \<and>
            httpClient this = inst \<and>
            (retry inst = None \<longrightarrow>
               send t this request = try_request this (attempts_of t this request 0, 1) \<and>
               attempts (send t this request) = 1))
       \<and> (props_instance p = None \<and> (maximumRetry p = None \<or> maximumRetry p = Some 0) \<longrightarrow>
            retry (httpClient this) = None \<and>
            send t this request = try_request this (attempts_of t this request 0, 1) \<and>
            attempts (send t this request) = 1)"
proof -
  have once: "send t this request = try_request this (attempts_of t this request 0, 1) \<and>
      attempts (send t this request) = 1"
    if "retry (httpClient this) = None"
  proof -
    have "request_loop (attempts_of t this request) None (http_method request) 0 =
        (attempts_of t this request 0, 1)"
      by (cases "attempts_of t this request 0")
        (simp_all add: request_loop.simps retries_after_def)
    then have call: "call_of t this request = (attempts_of t this request 0, 1)"
      by (simp add: call_of_def that)
    have "send t this request = try_request this (call_of t this request)"
      using assms(2) by (rule send_supported)
    with call have eq: "send t this request =
        try_request this (attempts_of t this request 0, 1)"
      by simp
    have "attempts (try_request this (attempts_of t this request 0, 1)) = 1"
      by (cases "attempts_of t this request 0") (simp_all add: try_request_def)
    with eq show ?thesis by simp
  qed
  have given: "AxiosHttpClient p =
      \<lparr>httpClient = inst, errorHandler = None, errorConstructors = None\<rparr> \<and> httpClient this = inst"
    if "props_instance p = Some inst"
    using that assms(1) by (simp add: httpClient_foldl_configure AxiosHttpClient_def)
  have created: "retry (httpClient this) = None"
    if "props_instance p = None \<and> (maximumRetry p = None \<or> maximumRetry p = Some 0)"
    using that assms(1) by (auto simp: httpClient_foldl_configure AxiosHttpClient_def)
  from once given created show ?thesis
    by metis
qed

text \<open>C10 at two clients and a server that always answers 500: a client given its own
  instance beside \<open>maximumRetry = 2\<close>, and a client without instance and with
  \<open>maximumRetry = 0\<close>. A GET makes one attempt and raises the error of that attempt.\<close>

theorem C10_witness:
  "AxiosHttpClient (instance_props (Some 2)) =
     \<lparr>httpClient = plain_instance, errorHandler = None, errorConstructors = None\<rparr>
   \<and> send (server2 [] (Failure (Obj (response_error 500 JNull))))
        (AxiosHttpClient (instance_props (Some 2))) (test_request ''GET'') =
       \<lparr>outcome = Inl (Obj (response_error 500 JNull)), attempts = 1, handler_calls = []\<rparr>
   \<and> send (server2 [] (Failure (Obj (response_error 500 JNull))))
        (AxiosHttpClient (test_props (Some 0))) (test_request ''GET'') =
       \<lparr>outcome = Inl (Obj (response_error 500 JNull)), attempts = 1, handler_calls = []\<rparr>"
proof -
  let ?t = "server2 [] (Failure (Obj (response_error 500 JNull)))"
  let ?q = "test_request ''GET''"
  let ?run = "\<lparr>outcome = Inl (Obj (response_error 500 JNull)), attempts = 1,
      handler_calls = []\<rparr>"
  have m: "http_method ?q \<in> supported_methods"
    by (simp add: test_request_def supported_methods_def)
  have c: "AxiosHttpClient p = foldl configure (AxiosHttpClient p) []" for p
    by simp
  have i: "props_instance (instance_props (Some 2)) = Some plain_instance"
    "retry plain_instance = None"
    by (simp_all add: instance_props_def plain_instance_def)
  have n: "props_instance (test_props (Some 0)) = None \<and>
      (maximumRetry (test_props (Some 0)) = None \<or> maximumRetry (test_props (Some 0)) = Some 0)"
    by (simp add: test_props_def)
  have r: "try_request (AxiosHttpClient p) (attempts_of ?t (AxiosHttpClient p) ?q 0, 1) = ?run"
    if "p = instance_props (Some 2) \<or> p = test_props (Some 0)" for p
    using that
    by (auto simp: try_request_def attempts_of_def server2_def rethrowError_def
        response_error_def ultrasaErrorBody_def AxiosHttpClient_def instance_props_def
        test_props_def)
  from C10_no_retry_installed [OF c m, of "instance_props (Some 2)" plain_instance ?t] i
  have given: "AxiosHttpClient (instance_props (Some 2)) =
      \<lparr>httpClient = plain_instance, errorHandler = None, errorConstructors = None\<rparr>"
    and "send ?t (AxiosHttpClient (instance_props (Some 2))) ?q =
      try_request (AxiosHttpClient (instance_props (Some 2)))
        (attempts_of ?t (AxiosHttpClient (instance_props (Some 2))) ?q 0, 1)"
    by blast+
  moreover from C10_no_retry_installed [OF c m, of "test_props (Some 0)" plain_instance ?t] n
  have "send ?t (AxiosHttpClient (test_props (Some 0))) ?q =
      try_request (AxiosHttpClient (test_props (Some 0)))
        (attempts_of ?t (AxiosHttpClient (test_props (Some 0))) ?q 0, 1)"
    by blast
  ultimately show ?thesis
    using r [of "instance_props (Some 2)"] r [of "test_props (Some 0)"]
    by (intro conjI) (blast, metis, metis)
qed

text \<open>The claim as stated fails for a \<open>send\<close> whose method is not one of the five: on a
  client without instance and without \<open>maximumRetry\<close>, and on a client given its own
  instance, a HEAD against a server that would answer 200 makes no attempt at all.\<close>

theorem C10_counterexample:
  "props_instance (test_props None) = None
   \<and> maximumRetry (test_props None) = None
   \<and> attempts (send (server2 [] (Success \<lparr>status = 200, data = JNull, resp_headers = []\<rparr>))
        (AxiosHttpClient (test_props None)) (test_request ''HEAD'')) \<noteq> 1
   \<and> props_instance (instance_props None) = Some plain_instance
   \<and> attempts (send (server2 [] (Success \<lparr>status = 200, data = JNull, resp_headers = []\<rparr>))
        (AxiosHttpClient (instance_props None)) (test_request ''HEAD'')) \<noteq> 1"
  by (simp add: send_def try_request_def rethrowError_def test_request_def test_props_def
      instance_props_def)

end
